theory Spec2Isabelle
  imports Main "HOL-Library.Sublist"
begin

section \<open>JavaScript values, errors and string conversion\<close>

text \<open>
  The add-in handles values of type \<^verbatim>\<open>any\<close>: the \<^verbatim>\<open>options\<close> of the host event
  and the JSON bodies of the Graph responses. They are modelled as a datatype of
  JavaScript data. Numbers are integers (their decimal rendering is JavaScript's in the
  safe-integer range); an object is the association list of its own properties, the
  first entry of a key being its value.
\<close>

datatype jsvalue =
    JUndefined
  | JNull
  | JBool bool
  | JNum int
  | JStr string
  | JArr "jsvalue list"
  | JObj "(string \<times> jsvalue) list"

text \<open>
  What a \<^verbatim>\<open>throw\<close> or a rejected promise carries: an \<^verbatim>\<open>Error\<close> with its message,
  or one of the runtime's own errors.
\<close>

datatype error = Error string | TypeError | SyntaxError

text \<open>\<^verbatim>\<open>if (v)\<close>, \<^verbatim>\<open>!v\<close>, \<^verbatim>\<open>a && b\<close>, \<^verbatim>\<open>a || b\<close> test this.\<close>

fun truthy :: "jsvalue \<Rightarrow> bool" where
  "truthy JUndefined = False"
| "truthy JNull = False"
| "truthy (JBool b) = b"
| "truthy (JNum n) = (n \<noteq> 0)"
| "truthy (JStr s) = (s \<noteq> [])"
| "truthy (JArr xs) = True"
| "truthy (JObj kvs) = True"

text \<open>Decimal rendering of a number, as a template literal prints it.\<close>

fun digits :: "nat \<Rightarrow> string" where
  "digits n =
     (if n < 10 then [''0123456789'' ! n]
      else digits (n div 10) @ [''0123456789'' ! (n mod 10)])"

declare digits.simps [simp del]

definition int_to_string :: "int \<Rightarrow> string" where
  "int_to_string i = (if i < 0 then ''-'' @ digits (nat (- i)) else digits (nat i))"

text \<open>
  \<^verbatim>\<open>v.name\<close> for a property name that no prototype defines (\<^verbatim>\<open>id\<close>, \<^verbatim>\<open>error\<close>,
  \<^verbatim>\<open>message\<close>): reading a property of \<^verbatim>\<open>null\<close> or \<^verbatim>\<open>undefined\<close> throws a
  \<^verbatim>\<open>TypeError\<close>, a missing property reads as \<^verbatim>\<open>undefined\<close>.
\<close>

fun js_prop :: "jsvalue \<Rightarrow> string \<Rightarrow> error + jsvalue" where
  "js_prop JUndefined name = Inl TypeError"
| "js_prop JNull name = Inl TypeError"
| "js_prop (JObj kvs) name = Inr (case map_of kvs name of Some v \<Rightarrow> v | None \<Rightarrow> JUndefined)"
| "js_prop v name = Inr JUndefined"

text \<open>
  \<^verbatim>\<open>v[i]\<close> for a small index: the property named by the decimal index of an object,
  the element of an array, the character of a string.
\<close>

fun js_index :: "jsvalue \<Rightarrow> nat \<Rightarrow> error + jsvalue" where
  "js_index JUndefined i = Inl TypeError"
| "js_index JNull i = Inl TypeError"
| "js_index (JObj kvs) i = Inr (case map_of kvs (digits i) of Some v \<Rightarrow> v | None \<Rightarrow> JUndefined)"
| "js_index (JArr xs) i = Inr (if i < length xs then xs ! i else JUndefined)"
| "js_index (JStr s) i = Inr (if i < length s then JStr [s ! i] else JUndefined)"
| "js_index v i = Inr JUndefined"

text \<open>
  String conversion in a template literal \<^verbatim>\<open>`${v}`\<close>. A plain object prints as
  \<^verbatim>\<open>[object Object]\<close> unless an own \<^verbatim>\<open>toString\<close> property (never callable in JSON
  data) hides the inherited method, which is a \<^verbatim>\<open>TypeError\<close>; an array joins its
  elements with commas, \<^verbatim>\<open>null\<close> and \<^verbatim>\<open>undefined\<close> elements printing as nothing.
\<close>

fun ToString :: "jsvalue \<Rightarrow> error + string"
  and join_elements :: "jsvalue list \<Rightarrow> error + string" where
  "ToString JUndefined = Inr ''undefined''"
| "ToString JNull = Inr ''null''"
| "ToString (JBool b) = Inr (if b then ''true'' else ''false'')"
| "ToString (JNum n) = Inr (int_to_string n)"
| "ToString (JStr s) = Inr s"
| "ToString (JArr xs) = join_elements xs"
| "ToString (JObj kvs) =
     (if map_of kvs ''toString'' \<noteq> None then Inl TypeError else Inr ''[object Object]'')"
| "join_elements [] = Inr []"
| "join_elements (x # xs) =
     (case (if x = JNull \<or> x = JUndefined then Inr [] else ToString x) of
        Inl e \<Rightarrow> Inl e
      | Inr s \<Rightarrow>
          (if xs = [] then Inr s
           else (case join_elements xs of Inl e \<Rightarrow> Inl e | Inr t \<Rightarrow> Inr (s @ '','' @ t))))"

text \<open>Sequencing of pure steps that may throw.\<close>

definition bindE :: "error + 'a \<Rightarrow> ('a \<Rightarrow> error + 'b) \<Rightarrow> error + 'b" where
  "bindE r f = (case r of Inl e \<Rightarrow> Inl e | Inr v \<Rightarrow> f v)"

section \<open>The category of a report\<close>

datatype category = Phishing | Spam | NotJunk

fun category_name :: "category \<Rightarrow> string" where
  "category_name Phishing = ''phishing''"
| "category_name Spam = ''spam''"
| "category_name NotJunk = ''notJunk''"

text \<open>
  The block of \<^verbatim>\<open>onSpamReport\<close> that maps \<^verbatim>\<open>event.options\<close> to the category
  (\<^verbatim>\<open>let category = "phishing"; if (reportingOptions) { if (reportingOptions[0] === true)
  ... }\<close>). An event without \<^verbatim>\<open>options\<close> has \<^verbatim>\<open>JUndefined\<close> there.
\<close>

definition reportCategory :: "jsvalue \<Rightarrow> error + category" where
  "reportCategory reportingOptions =
     (if truthy reportingOptions then
        bindE (js_index reportingOptions 0) (\<lambda>v0.
          if v0 = JBool True then Inr Phishing
          else bindE (js_index reportingOptions 1) (\<lambda>v1.
            if v1 = JBool True then Inr Spam
            else bindE (js_index reportingOptions 2) (\<lambda>v2.
              if v2 = JBool True then Inr NotJunk
              else Inr Phishing)))
      else Inr Phishing)"

section \<open>The host: mailbox context, authentication, network, JSON\<close>

datatype http_method = GET | POST

record request =
  url :: string
  httpMethod :: http_method
  authorization :: string
  contentType :: "string option"
  requestBody :: "string option"

record response =
  status :: nat
  statusText :: string
  responseText :: string

text \<open>
  \<^verbatim>\<open>response.ok\<close> is the Fetch API's getter: the status is in the range 200 to 299.
  \<^verbatim>\<open>response.text()\<close> is the field \<open>responseText\<close>, and \<^verbatim>\<open>response.json()\<close> is
  \<^verbatim>\<open>JSON.parse\<close> of that text.
\<close>

definition response_ok :: "response \<Rightarrow> bool" where
  "response_ok r = (200 \<le> status r \<and> status r \<le> 299)"

record mailItem =
  itemId :: "string option"

record userProfile =
  emailAddress :: "string option"

text \<open>
  Everything the add-in reads from outside, as parameters: the two methods of
  \<^verbatim>\<open>AccountManager\<close> (module \<^verbatim>\<open>authConfig\<close>) it awaits, \<^verbatim>\<open>Office.context.mailbox\<close>
  (the item, the user profile, \<^verbatim>\<open>convertToRestId\<close>), \<^verbatim>\<open>fetch\<close>, and the runtime's
  \<^verbatim>\<open>JSON.parse\<close> and \<^verbatim>\<open>JSON.stringify\<close>. An awaited operation is taken at its settled
  outcome: \<open>Inr\<close> the value it resolves to, \<open>Inl\<close> the error it rejects with or throws
  (a promise that never settles is outside the model). A field that is \<^verbatim>\<open>undefined\<close>
  or \<^verbatim>\<open>null\<close> is \<open>None\<close>.
\<close>

record host =
  initialize :: "error + unit"
  ssoGetAccessToken :: "string list \<Rightarrow> error + string"
  mailbox_item :: "mailItem option"
  mailbox_userProfile :: "userProfile option"
  convertToRestId :: "string \<Rightarrow> error + string"
  fetch :: "request \<Rightarrow> error + response"
  JSON_parse :: "string \<Rightarrow> error + jsvalue"
  JSON_stringify :: "jsvalue \<Rightarrow> string"

text \<open>
  What the host can observe of a run, in order: each request handed to \<^verbatim>\<open>fetch\<close> and
  each call of \<^verbatim>\<open>event.completed\<close> with its \<^verbatim>\<open>allowEvent\<close>; the callback returns
  normally. Console output is left out. A computation yields its result, or the error
  it throws, and the events it caused.
\<close>

datatype event = Fetch request | Completed bool

type_synonym 'a io = "(error + 'a) \<times> event list"

definition ret :: "'a \<Rightarrow> 'a io" where
  "ret v = (Inr v, [])"

definition throw :: "error \<Rightarrow> 'a io" where
  "throw e = (Inl e, [])"

definition await :: "error + 'a \<Rightarrow> 'a io" where
  "await r = (r, [])"

definition io_bind :: "'a io \<Rightarrow> ('a \<Rightarrow> 'b io) \<Rightarrow> 'b io" where
  "io_bind m f =
     (case m of
        (Inl e, evs) \<Rightarrow> (Inl e, evs)
      | (Inr v, evs) \<Rightarrow> (case f v of (r, evs') \<Rightarrow> (r, evs @ evs')))"

text \<open>\<^verbatim>\<open>try { m } catch (error) { handler }\<close>.\<close>

definition try_catch :: "'a io \<Rightarrow> (error \<Rightarrow> 'a io) \<Rightarrow> 'a io" where
  "try_catch m handler =
     (case m of
        (Inl e, evs) \<Rightarrow> (case handler e of (r, evs') \<Rightarrow> (r, evs @ evs'))
      | (Inr v, evs) \<Rightarrow> (Inr v, evs))"

definition do_fetch :: "host \<Rightarrow> request \<Rightarrow> response io" where
  "do_fetch h req = (fetch h req, [Fetch req])"

definition completed :: "bool \<Rightarrow> unit io" where
  "completed allowEvent = (Inr (), [Completed allowEvent])"

section \<open>The Graph client (msgraph-helper.ts)\<close>

definition graphBase :: string where
  "graphBase = ''https://graph.microsoft.com/beta''"

definition makeGraphRequest :: "host \<Rightarrow> string \<Rightarrow> string \<Rightarrow> string \<Rightarrow> jsvalue io" where
  "makeGraphRequest h accessToken path queryParams =
     (if path = [] then throw (Error ''path is required.'')
      else if \<not> prefix ''/'' path then throw (Error ''path must start with '/'.'')
      else if queryParams \<noteq> [] \<and> \<not> prefix ''?'' queryParams
        then throw (Error ''queryParams must start with '?'.'')
      else
        io_bind (do_fetch h
          \<lparr>url = graphBase @ path @ queryParams, httpMethod = GET,
           authorization = accessToken, contentType = None, requestBody = None\<rparr>)
        (\<lambda>response.
          if response_ok response then await (JSON_parse h (responseText response))
          else throw (Error (statusText response))))"

text \<open>
  The message \<^verbatim>\<open>makeGraphPostRequest\<close> builds for a response that is not ok: status and
  status text, then what the inner \<^verbatim>\<open>try\<close> appends, or the raw text when the inner
  \<^verbatim>\<open>try\<close> throws.
\<close>

definition postErrorMessage :: "host \<Rightarrow> response \<Rightarrow> string" where
  "postErrorMessage h response =
     (let errorText = responseText response;
          errorMessage = digits (status response) @ '' '' @ statusText response
      in case
           bindE (JSON_parse h errorText) (\<lambda>errorData.
             bindE (js_prop errorData ''error'') (\<lambda>err.
               if truthy err then
                 bindE (js_prop err ''message'') (\<lambda>msg.
                   bindE (if truthy msg then ToString msg else Inr (JSON_stringify h err)) (\<lambda>s.
                     Inr (errorMessage @ '': '' @ s)))
               else Inr errorMessage))
         of
           Inr m \<Rightarrow> m
         | Inl e \<Rightarrow> errorMessage @ '': '' @ errorText)"

definition makeGraphPostRequest :: "host \<Rightarrow> string \<Rightarrow> string \<Rightarrow> jsvalue \<Rightarrow> jsvalue io" where
  "makeGraphPostRequest h accessToken path body =
     (if path = [] then throw (Error ''path is required.'')
      else if \<not> prefix ''/'' path then throw (Error ''path must start with '/'.'')
      else
        try_catch
          (io_bind (do_fetch h
            \<lparr>url = graphBase @ path, httpMethod = POST,
             authorization = accessToken, contentType = Some ''application/json'',
             requestBody = Some (JSON_stringify h body)\<rparr>)
          (\<lambda>response.
            if response_ok response then await (JSON_parse h (responseText response))
            else throw (Error (postErrorMessage h response))))
          (\<lambda>error. throw error))"

section \<open>Identity, message location and submission (spamreporting.ts)\<close>

definition getCurrentUserId :: "host \<Rightarrow> string \<Rightarrow> jsvalue io" where
  "getCurrentUserId h accessToken =
     try_catch
       (io_bind (makeGraphRequest h accessToken ''/me'' ''?$select=id'') (\<lambda>userProfile.
          if truthy userProfile then
            io_bind (await (js_prop userProfile ''id'')) (\<lambda>userId.
              if truthy userId then ret userId
              else throw (Error ''Unable to retrieve user ID from Graph API''))
          else throw (Error ''Unable to retrieve user ID from Graph API'')))
       (\<lambda>error. throw error)"

definition getCurrentMessageUrl :: "host \<Rightarrow> string \<Rightarrow> string io" where
  "getCurrentMessageUrl h accessToken =
     (case mailbox_item h of
        None \<Rightarrow> throw (Error ''No email item is currently selected.'')
      | Some item \<Rightarrow>
          (case itemId item of
             Some itemId' \<Rightarrow>
               if itemId' \<noteq> [] then
                 try_catch
                   (io_bind (getCurrentUserId h accessToken) (\<lambda>userId.
                    io_bind (await (convertToRestId h itemId')) (\<lambda>restId.
                    io_bind (await (ToString userId)) (\<lambda>userIdText.
                      ret (''https://graph.microsoft.com/beta/users/'' @ userIdText
                             @ ''/messages/'' @ restId)))))
                   (\<lambda>error. throw error)
               else throw (Error ''Item ID is not available - cannot get message URL'')
           | None \<Rightarrow> throw (Error ''Item ID is not available - cannot get message URL'')))"

definition getRecipientEmailAddress :: "host \<Rightarrow> string io" where
  "getRecipientEmailAddress h =
     (case mailbox_userProfile h of
        None \<Rightarrow> throw (Error ''Unable to get user email address'')
      | Some userProfile \<Rightarrow>
          (case emailAddress userProfile of
             Some address \<Rightarrow>
               if address \<noteq> [] then ret address
               else throw (Error ''Unable to get user email address'')
           | None \<Rightarrow> throw (Error ''Unable to get user email address'')))"

text \<open>The request body \<^verbatim>\<open>submitEmailThreat\<close> assembles.\<close>

definition report :: "category \<Rightarrow> string \<Rightarrow> string \<Rightarrow> jsvalue" where
  "report category recipientEmail messageUrl =
     JObj [(''@odata.type'', JStr ''#microsoft.graph.security.emailUrlThreatSubmission''),
           (''category'', JStr (category_name category)),
           (''recipientEmailAddress'', JStr recipientEmail),
           (''messageUrl'', JStr messageUrl)]"

definition submitEmailThreat :: "host \<Rightarrow> category \<Rightarrow> jsvalue io" where
  "submitEmailThreat h category =
     try_catch
       (io_bind (await (ssoGetAccessToken h [''ThreatSubmission.ReadWrite'', ''Mail.Read'']))
          (\<lambda>accessToken.
        io_bind (getRecipientEmailAddress h) (\<lambda>recipientEmail.
        io_bind (getCurrentMessageUrl h accessToken) (\<lambda>messageUrl.
          makeGraphPostRequest h accessToken ''/security/threatSubmission/emailThreats''
            (report category recipientEmail messageUrl)))))
       (\<lambda>error. throw error)"

section \<open>The command handler\<close>

definition onSpamReport :: "host \<Rightarrow> jsvalue \<Rightarrow> unit io" where
  "onSpamReport h options =
     try_catch
       (io_bind (await (initialize h)) (\<lambda>u.
        io_bind (await (reportCategory options)) (\<lambda>category.
        io_bind (submitEmailThreat h category) (\<lambda>response.
          completed True))))
       (\<lambda>error. completed False)"

text \<open>The \<^verbatim>\<open>allowEvent\<close> of each completion signal of a run, and its requests, in order.\<close>

fun completions :: "event list \<Rightarrow> bool list" where
  "completions [] = []"
| "completions (Completed b # evs) = b # completions evs"
| "completions (Fetch req # evs) = completions evs"

fun requests :: "event list \<Rightarrow> request list" where
  "requests [] = []"
| "requests (Fetch req # evs) = req # requests evs"
| "requests (Completed b # evs) = requests evs"

section \<open>Names for the requests and the outcome of a run\<close>

text \<open>
  The arguments \<^verbatim>\<open>makeGraphRequest\<close> and \<^verbatim>\<open>makeGraphPostRequest\<close> hand to \<^verbatim>\<open>fetch\<close>,
  the one request \<^verbatim>\<open>getCurrentUserId\<close> makes, and the scopes and the path
  \<^verbatim>\<open>submitEmailThreat\<close> uses, named for the statements below.
\<close>

definition getRequest :: "string \<Rightarrow> string \<Rightarrow> string \<Rightarrow> request" where
  "getRequest accessToken path queryParams =
     \<lparr>url = graphBase @ path @ queryParams, httpMethod = GET,
      authorization = accessToken, contentType = None, requestBody = None\<rparr>"

definition postRequest :: "host \<Rightarrow> string \<Rightarrow> string \<Rightarrow> jsvalue \<Rightarrow> request" where
  "postRequest h accessToken path body =
     \<lparr>url = graphBase @ path, httpMethod = POST,
      authorization = accessToken, contentType = Some ''application/json'',
      requestBody = Some (JSON_stringify h body)\<rparr>"

definition meRequest :: "string \<Rightarrow> request" where
  "meRequest accessToken = getRequest accessToken ''/me'' ''?$select=id''"

definition submissionScopes :: "string list" where
  "submissionScopes = [''ThreatSubmission.ReadWrite'', ''Mail.Read'']"

definition submissionPath :: string where
  "submissionPath = ''/security/threatSubmission/emailThreats''"

definition succeeded :: "error + 'a \<Rightarrow> bool" where
  "succeeded r = (case r of Inl e \<Rightarrow> False | Inr v \<Rightarrow> True)"

section \<open>A mailbox and a Graph service for the examples\<close>

text \<open>
  Concrete hosts on which the theorems are instantiated. \<open>example_parse\<close> and
  \<open>example_stringify\<close> stand for \<^verbatim>\<open>JSON.parse\<close> and \<^verbatim>\<open>JSON.stringify\<close> on the
  bodies the examples exchange: the parser knows four texts, the printer is exact on
  objects of plain strings that need no escaping. In \<open>example_host\<close> every step
  succeeds; each of the other hosts changes one part of it.
\<close>

definition example_parse :: "string \<Rightarrow> error + jsvalue" where
  "example_parse s =
     (if s = ''{\"id\":\"u1\"}'' then Inr (JObj [(''id'', JStr ''u1'')])
      else if s = ''{\"error\":{\"message\":\"Forbidden\"}}''
        then Inr (JObj [(''error'', JObj [(''message'', JStr ''Forbidden'')])])
      else if s = ''{\"error\":\"denied\"}'' then Inr (JObj [(''error'', JStr ''denied'')])
      else if s = ''{}'' then Inr (JObj [])
      else Inl SyntaxError)"

definition quoted :: "string \<Rightarrow> string" where
  "quoted s = ''\"'' @ s @ ''\"''"

fun join :: "string list \<Rightarrow> string" where
  "join [] = []"
| "join [s] = s"
| "join (s # t # ss) = s @ '','' @ join (t # ss)"

definition example_stringify :: "jsvalue \<Rightarrow> string" where
  "example_stringify v =
     (case v of
        JStr s \<Rightarrow> quoted s
      | JObj kvs \<Rightarrow>
          ''{'' @ join (map (\<lambda>(k, w). quoted k @ '':'' @
                               (case w of JStr s \<Rightarrow> quoted s | _ \<Rightarrow> ''null'')) kvs) @ ''}''
      | _ \<Rightarrow> ''null'')"

definition graph_service :: "response \<Rightarrow> response \<Rightarrow> request \<Rightarrow> error + response" where
  "graph_service me submission req = (if httpMethod req = GET then Inr me else Inr submission)"

definition example_host :: host where
  "example_host =
     \<lparr>initialize = Inr (),
      ssoGetAccessToken = (\<lambda>scopes. Inr ''token''),
      mailbox_item = Some \<lparr>itemId = Some ''AAA=''\<rparr>,
      mailbox_userProfile = Some \<lparr>emailAddress = Some ''user@contoso.com''\<rparr>,
      convertToRestId = (\<lambda>ident. Inr ident),
      fetch = graph_service
        \<lparr>status = 200, statusText = ''OK'', responseText = ''{\"id\":\"u1\"}''\<rparr>
        \<lparr>status = 201, statusText = ''Created'', responseText = ''{}''\<rparr>,
      JSON_parse = example_parse,
      JSON_stringify = example_stringify\<rparr>"

definition forbidden :: response where
  "forbidden =
     \<lparr>status = 403, statusText = ''Forbidden'',
      responseText = ''{\"error\":{\"message\":\"Forbidden\"}}''\<rparr>"

definition denied :: response where
  "denied =
     \<lparr>status = 401, statusText = ''Unauthorized'', responseText = ''{\"error\":\"denied\"}''\<rparr>"

definition server_error :: response where
  "server_error =
     \<lparr>status = 500, statusText = ''Internal Server Error'', responseText = ''{}''\<rparr>"

definition unavailable :: response where
  "unavailable =
     \<lparr>status = 503, statusText = ''Service Unavailable'', responseText = ''try later''\<rparr>"

definition forbidden_host :: host where
  "forbidden_host =
     example_host\<lparr>fetch :=
       graph_service
         \<lparr>status = 200, statusText = ''OK'', responseText = ''{\"id\":\"u1\"}''\<rparr>
         forbidden\<rparr>"

definition refusing_host :: host where
  "refusing_host = example_host\<lparr>fetch := (\<lambda>req. Inr forbidden)\<rparr>"

definition failing_host :: host where
  "failing_host =
     example_host\<lparr>fetch :=
       graph_service
         \<lparr>status = 200, statusText = ''OK'', responseText = ''{\"id\":\"u1\"}''\<rparr>
         server_error\<rparr>"

definition no_token_host :: host where
  "no_token_host = example_host\<lparr>ssoGetAccessToken := (\<lambda>scopes. Inl (Error ''consent required''))\<rparr>"

definition no_profile_host :: host where
  "no_profile_host = example_host\<lparr>mailbox_userProfile := None\<rparr>"

definition no_item_host :: host where
  "no_item_host = example_host\<lparr>mailbox_item := None\<rparr>"

definition anonymous_host :: host where
  "anonymous_host =
     example_host\<lparr>fetch :=
       graph_service
         \<lparr>status = 200, statusText = ''OK'', responseText = ''{}''\<rparr>
         \<lparr>status = 201, statusText = ''Created'', responseText = ''{}''\<rparr>\<rparr>"

definition uninitialized_host :: host where
  "uninitialized_host = example_host\<lparr>initialize := Inl (Error ''MSAL failed to initialize'')\<rparr>"

definition example_url :: string where
  "example_url = ''https://graph.microsoft.com/beta/users/u1/messages/AAA=''"

section \<open>Basic facts\<close>

lemma digits_small: "n < 10 \<Longrightarrow> digits n = [''0123456789'' ! n]"
  by (simp add: digits.simps)

lemma js_index_truthy: "truthy v \<Longrightarrow> \<exists>w. js_index v i = Inr w"
  by (cases v) auto

lemma js_index_falsy: "\<not> truthy v \<Longrightarrow> js_index v i \<noteq> Inr (JBool True)"
  by (cases v) auto

text \<open>
  The category in closed form: it depends only on which of the indices 0, 1 and 2 hold
  exactly \<^verbatim>\<open>true\<close>, and the indexing under the guard never throws.
\<close>

lemma reportCategory_eq:
  "reportCategory options =
     Inr (if js_index options 0 = Inr (JBool True) then Phishing
          else if js_index options 1 = Inr (JBool True) then Spam
          else if js_index options 2 = Inr (JBool True) then NotJunk
          else Phishing)"
proof (cases "truthy options")
  case True
  obtain v0 v1 v2 where "js_index options 0 = Inr v0" "js_index options 1 = Inr v1"
    "js_index options 2 = Inr v2"
    using js_index_truthy [OF True] by metis
  then show ?thesis using True by (simp add: reportCategory_def bindE_def)
next
  case False
  then show ?thesis by (simp add: reportCategory_def js_index_falsy)
qed

text \<open>A \<^verbatim>\<open>catch\<close> block that only logs and rethrows changes nothing.\<close>

lemma try_catch_rethrow: "try_catch m (\<lambda>error. throw error) = m"
  by (simp add: try_catch_def throw_def split: prod.splits sum.splits)

lemma io_bind_await: "io_bind (await r) f = (case r of Inl e \<Rightarrow> (Inl e, []) | Inr v \<Rightarrow> f v)"
  by (simp add: io_bind_def await_def split: prod.splits sum.splits)

lemma io_bind_do_fetch:
  "io_bind (do_fetch h req) f =
     (case fetch h req of
        Inl e \<Rightarrow> (Inl e, [Fetch req])
      | Inr response \<Rightarrow> (fst (f response), Fetch req # snd (f response)))"
  by (simp add: io_bind_def do_fetch_def split: prod.splits sum.splits)

lemma completions_append: "completions (xs @ ys) = completions xs @ completions ys"
  by (induction xs rule: completions.induct) simp_all

lemma httpMethod_requests [simp]:
  "httpMethod (meRequest accessToken) = GET"
  "httpMethod (postRequest h accessToken path body) = POST"
  by (simp_all add: meRequest_def getRequest_def postRequest_def)

text \<open>The two Graph operations on a path and a query that pass the checks.\<close>

lemma makeGraphRequest_valid:
  "path \<noteq> [] \<Longrightarrow> prefix ''/'' path \<Longrightarrow> queryParams = [] \<or> prefix ''?'' queryParams \<Longrightarrow>
   makeGraphRequest h accessToken path queryParams =
     (case fetch h (getRequest accessToken path queryParams) of
        Inl e \<Rightarrow> Inl e
      | Inr response \<Rightarrow>
          if response_ok response then JSON_parse h (responseText response)
          else Inl (Error (statusText response)),
      [Fetch (getRequest accessToken path queryParams)])"
  by (auto simp add: makeGraphRequest_def getRequest_def io_bind_do_fetch await_def throw_def
      split: sum.splits)

lemma makeGraphPostRequest_valid:
  "path \<noteq> [] \<Longrightarrow> prefix ''/'' path \<Longrightarrow>
   makeGraphPostRequest h accessToken path body =
     (case fetch h (postRequest h accessToken path body) of
        Inl e \<Rightarrow> Inl e
      | Inr response \<Rightarrow>
          if response_ok response then JSON_parse h (responseText response)
          else Inl (Error (postErrorMessage h response)),
      [Fetch (postRequest h accessToken path body)])"
  unfolding makeGraphPostRequest_def try_catch_rethrow
  by (auto simp add: postRequest_def io_bind_do_fetch await_def throw_def split: sum.splits)

lemma makeGraphPostRequest_submission_events:
  "snd (makeGraphPostRequest h accessToken submissionPath body)
     = [Fetch (postRequest h accessToken submissionPath body)]"
  by (simp add: makeGraphPostRequest_valid submissionPath_def)

text \<open>The resolvers, with the \<^verbatim>\<open>try\<close> blocks and the promise plumbing unfolded.\<close>

lemma getCurrentUserId_eq:
  "getCurrentUserId h accessToken =
     (case makeGraphRequest h accessToken ''/me'' ''?$select=id'' of
        (Inl e, evs) \<Rightarrow> (Inl e, evs)
      | (Inr userProfile, evs) \<Rightarrow>
          (case js_prop userProfile ''id'' of
             Inr userId \<Rightarrow>
               if truthy userId then (Inr userId, evs)
               else (Inl (Error ''Unable to retrieve user ID from Graph API''), evs)
           | Inl e \<Rightarrow> (Inl (Error ''Unable to retrieve user ID from Graph API''), evs)))"
proof -
  have p: "js_prop v ''id'' = Inl e \<Longrightarrow> \<not> truthy v" for v e
    by (cases v) auto
  have q: "js_prop v ''id'' = Inr w \<Longrightarrow> truthy w \<Longrightarrow> truthy v" for v w
    by (cases v) auto
  show ?thesis
    unfolding getCurrentUserId_def try_catch_rethrow
    by (auto simp add: io_bind_def io_bind_await ret_def throw_def await_def
          dest: p q split: prod.splits sum.splits)
qed

lemma getCurrentUserId_events: "snd (getCurrentUserId h accessToken) = [Fetch (meRequest accessToken)]"
  by (simp add: getCurrentUserId_eq makeGraphRequest_valid meRequest_def
      split: prod.splits sum.splits)

lemma getCurrentMessageUrl_selected:
  "mailbox_item h = Some item \<Longrightarrow> itemId item = Some ident \<Longrightarrow> ident \<noteq> [] \<Longrightarrow>
   getCurrentMessageUrl h accessToken =
     (case getCurrentUserId h accessToken of
        (Inl e, evs) \<Rightarrow> (Inl e, evs)
      | (Inr userId, evs) \<Rightarrow>
          (case convertToRestId h ident of
             Inl e \<Rightarrow> (Inl e, evs)
           | Inr restId \<Rightarrow>
               (case ToString userId of
                  Inl e \<Rightarrow> (Inl e, evs)
                | Inr userIdText \<Rightarrow>
                    (Inr (''https://graph.microsoft.com/beta/users/'' @ userIdText
                            @ ''/messages/'' @ restId), evs))))"
  unfolding getCurrentMessageUrl_def try_catch_rethrow
  by (simp add: io_bind_def await_def ret_def split: prod.splits sum.splits)

lemma getCurrentMessageUrl_events:
  "snd (getCurrentMessageUrl h accessToken) = [] \<or>
   snd (getCurrentMessageUrl h accessToken) = [Fetch (meRequest accessToken)]"
proof (cases "\<exists>item ident. mailbox_item h = Some item \<and> itemId item = Some ident \<and> ident \<noteq> []")
  case True
  then obtain item ident where "mailbox_item h = Some item" "itemId item = Some ident" "ident \<noteq> []"
    by blast
  then show ?thesis
    using getCurrentUserId_events [of h accessToken]
    by (auto simp add: getCurrentMessageUrl_selected split: prod.splits sum.splits)
next
  case False
  then show ?thesis
    by (auto simp add: getCurrentMessageUrl_def throw_def split: option.splits)
qed

lemma getCurrentMessageUrl_success_events:
  assumes "fst (getCurrentMessageUrl h accessToken) = Inr messageUrl"
  shows "snd (getCurrentMessageUrl h accessToken) = [Fetch (meRequest accessToken)]"
proof (cases "\<exists>item ident. mailbox_item h = Some item \<and> itemId item = Some ident \<and> ident \<noteq> []")
  case True
  then obtain item ident where "mailbox_item h = Some item" "itemId item = Some ident" "ident \<noteq> []"
    by blast
  then show ?thesis
    using getCurrentUserId_events [of h accessToken]
    by (auto simp add: getCurrentMessageUrl_selected split: prod.splits sum.splits)
next
  case False
  then show ?thesis
    using assms by (auto simp add: getCurrentMessageUrl_def throw_def split: option.splits)
qed

lemma getCurrentMessageUrl_nonempty:
  "fst (getCurrentMessageUrl h accessToken) = Inr messageUrl \<Longrightarrow> messageUrl \<noteq> []"
  unfolding getCurrentMessageUrl_def try_catch_rethrow
  by (auto simp add: io_bind_def await_def ret_def throw_def
      split: option.splits if_splits prod.splits sum.splits)

lemma getRecipientEmailAddress_cases:
  "(\<exists>address. address \<noteq> [] \<and> getRecipientEmailAddress h = (Inr address, [])) \<or>
   getRecipientEmailAddress h = (Inl (Error ''Unable to get user email address''), [])"
  by (simp add: getRecipientEmailAddress_def ret_def throw_def split: option.splits)

text \<open>
  \<^verbatim>\<open>submitEmailThreat\<close> step by step, and the three shapes of its runs: no request,
  the profile request only, or the profile request followed by the submission.
\<close>

lemma submitEmailThreat_eq:
  "submitEmailThreat h category =
     (case ssoGetAccessToken h submissionScopes of
        Inl e \<Rightarrow> (Inl e, [])
      | Inr accessToken \<Rightarrow>
          (case fst (getRecipientEmailAddress h) of
             Inl e \<Rightarrow> (Inl e, [])
           | Inr recipientEmail \<Rightarrow>
               (case getCurrentMessageUrl h accessToken of
                  (Inl e, evs) \<Rightarrow> (Inl e, evs)
                | (Inr messageUrl, evs) \<Rightarrow>
                    (fst (makeGraphPostRequest h accessToken submissionPath
                            (report category recipientEmail messageUrl)),
                     evs @ snd (makeGraphPostRequest h accessToken submissionPath
                                  (report category recipientEmail messageUrl))))))"
  unfolding submitEmailThreat_def try_catch_rethrow
  using getRecipientEmailAddress_cases [of h]
  by (auto simp add: io_bind_def await_def submissionScopes_def submissionPath_def
      split: prod.splits sum.splits)

lemma submitEmailThreat_runs:
  "(\<exists>e. submitEmailThreat h category = (Inl e, []) \<and>
        (ssoGetAccessToken h submissionScopes = Inl e \<or>
         (\<exists>accessToken. ssoGetAccessToken h submissionScopes = Inr accessToken \<and>
            (fst (getRecipientEmailAddress h) = Inl e \<or>
             (succeeded (fst (getRecipientEmailAddress h)) \<and>
              getCurrentMessageUrl h accessToken = (Inl e, [])))))) \<or>
   (\<exists>e accessToken. submitEmailThreat h category = (Inl e, [Fetch (meRequest accessToken)]) \<and>
        ssoGetAccessToken h submissionScopes = Inr accessToken \<and>
        succeeded (fst (getRecipientEmailAddress h)) \<and>
        getCurrentMessageUrl h accessToken = (Inl e, [Fetch (meRequest accessToken)])) \<or>
   (\<exists>accessToken recipientEmail messageUrl.
        ssoGetAccessToken h submissionScopes = Inr accessToken \<and>
        fst (getRecipientEmailAddress h) = Inr recipientEmail \<and> recipientEmail \<noteq> [] \<and>
        getCurrentMessageUrl h accessToken = (Inr messageUrl, [Fetch (meRequest accessToken)]) \<and>
        messageUrl \<noteq> [] \<and>
        submitEmailThreat h category =
          (fst (makeGraphPostRequest h accessToken submissionPath
                  (report category recipientEmail messageUrl)),
           [Fetch (meRequest accessToken),
            Fetch (postRequest h accessToken submissionPath
                     (report category recipientEmail messageUrl))]))"
proof (cases "ssoGetAccessToken h submissionScopes")
  case (Inl e)
  then show ?thesis by (simp add: submitEmailThreat_eq)
next
  case (Inr accessToken)
  note tok = this
  show ?thesis
  proof (cases "fst (getRecipientEmailAddress h)")
    case (Inl e)
    then show ?thesis using tok by (simp add: submitEmailThreat_eq)
  next
    case (Inr recipientEmail)
    note rcp = this
    have ne: "recipientEmail \<noteq> []"
      using getRecipientEmailAddress_cases [of h] rcp by auto
    obtain r evs where url: "getCurrentMessageUrl h accessToken = (r, evs)"
      by (cases "getCurrentMessageUrl h accessToken")
    have evs: "evs = [] \<or> evs = [Fetch (meRequest accessToken)]"
      using getCurrentMessageUrl_events [of h accessToken] url by simp
    show ?thesis
    proof (cases r)
      case (Inl e)
      then show ?thesis
        using tok rcp url evs by (auto simp add: submitEmailThreat_eq succeeded_def)
    next
      case (Inr messageUrl)
      have "messageUrl \<noteq> []"
        using getCurrentMessageUrl_nonempty [of h accessToken messageUrl] url Inr by simp
      moreover have "evs = [Fetch (meRequest accessToken)]"
        using getCurrentMessageUrl_success_events [of h accessToken messageUrl] url Inr by simp
      ultimately show ?thesis
        using tok rcp url Inr ne
        by (simp add: submitEmailThreat_eq makeGraphPostRequest_submission_events)
    qed
  qed
qed

lemma submitEmailThreat_no_completions: "completions (snd (submitEmailThreat h category)) = []"
  using submitEmailThreat_runs [of h category]
  by (elim disjE exE conjE) simp_all

lemma onSpamReport_eq:
  "onSpamReport h options =
     (case initialize h of
        Inl e \<Rightarrow> (Inr (), [Completed False])
      | Inr u \<Rightarrow>
          (case reportCategory options of
             Inl e \<Rightarrow> (Inr (), [Completed False])
           | Inr category \<Rightarrow>
               (case submitEmailThreat h category of
                  (Inl e, evs) \<Rightarrow> (Inr (), evs @ [Completed False])
                | (Inr response, evs) \<Rightarrow> (Inr (), evs @ [Completed True]))))"
  by (simp add: onSpamReport_def try_catch_def io_bind_def await_def completed_def
      split: prod.splits sum.splits)

text \<open>The example hosts, evaluated.\<close>

lemma example_token:
  "ssoGetAccessToken example_host submissionScopes = Inr ''token''"
  "ssoGetAccessToken forbidden_host submissionScopes = Inr ''token''"
  "ssoGetAccessToken no_profile_host submissionScopes = Inr ''token''"
  "ssoGetAccessToken no_item_host submissionScopes = Inr ''token''"
  by (simp_all add: example_host_def forbidden_host_def no_profile_host_def no_item_host_def)

lemma example_recipient:
  "getRecipientEmailAddress example_host = (Inr ''user@contoso.com'', [])"
  "getRecipientEmailAddress forbidden_host = (Inr ''user@contoso.com'', [])"
  "getRecipientEmailAddress no_item_host = (Inr ''user@contoso.com'', [])"
  "getRecipientEmailAddress no_profile_host = (Inl (Error ''Unable to get user email address''), [])"
  by (simp_all add: getRecipientEmailAddress_def ret_def throw_def example_host_def
      forbidden_host_def no_item_host_def no_profile_host_def)

lemma example_profile:
  "makeGraphRequest example_host ''token'' ''/me'' ''?$select=id''
     = (Inr (JObj [(''id'', JStr ''u1'')]), [Fetch (meRequest ''token'')])"
  by (simp add: makeGraphRequest_valid example_host_def
      graph_service_def response_ok_def example_parse_def meRequest_def getRequest_def)

lemma anonymous_me:
  "makeGraphRequest anonymous_host ''token'' ''/me'' ''?$select=id''
     = (Inr (JObj []), [Fetch (meRequest ''token'')])"
  by (simp add: makeGraphRequest_valid anonymous_host_def example_host_def
      graph_service_def response_ok_def example_parse_def meRequest_def getRequest_def)

lemma example_me:
  "getCurrentUserId example_host ''token'' = (Inr (JStr ''u1''), [Fetch (meRequest ''token'')])"
  by (simp add: getCurrentUserId_eq makeGraphRequest_valid example_host_def graph_service_def
      response_ok_def example_parse_def meRequest_def getRequest_def)

lemma forbidden_me:
  "getCurrentUserId forbidden_host ''token'' = (Inr (JStr ''u1''), [Fetch (meRequest ''token'')])"
  by (simp add: getCurrentUserId_eq makeGraphRequest_valid forbidden_host_def example_host_def
      graph_service_def response_ok_def example_parse_def meRequest_def getRequest_def)

lemma example_messageUrl:
  "getCurrentMessageUrl example_host ''token'' = (Inr example_url, [Fetch (meRequest ''token'')])"
  "getCurrentMessageUrl forbidden_host ''token'' = (Inr example_url, [Fetch (meRequest ''token'')])"
  "getCurrentMessageUrl no_item_host ''token''
     = (Inl (Error ''No email item is currently selected.''), [])"
proof -
  have a: "mailbox_item example_host = Some \<lparr>itemId = Some ''AAA=''\<rparr>"
    "mailbox_item forbidden_host = Some \<lparr>itemId = Some ''AAA=''\<rparr>"
    by (simp_all add: example_host_def forbidden_host_def)
  have b: "itemId \<lparr>itemId = Some ''AAA=''\<rparr> = Some ''AAA=''" "''AAA='' \<noteq> []"
    by simp_all
  have c: "convertToRestId example_host ''AAA='' = Inr ''AAA=''"
    "convertToRestId forbidden_host ''AAA='' = Inr ''AAA=''"
    by (simp_all add: example_host_def forbidden_host_def)
  show "getCurrentMessageUrl example_host ''token'' = (Inr example_url, [Fetch (meRequest ''token'')])"
    by (simp add: getCurrentMessageUrl_selected [OF a(1) b] example_me c example_url_def)
  show "getCurrentMessageUrl forbidden_host ''token'' = (Inr example_url, [Fetch (meRequest ''token'')])"
    by (simp add: getCurrentMessageUrl_selected [OF a(2) b] forbidden_me c example_url_def)
  show "getCurrentMessageUrl no_item_host ''token''
     = (Inl (Error ''No email item is currently selected.''), [])"
    by (simp add: getCurrentMessageUrl_def no_item_host_def example_host_def throw_def)
qed

lemma example_post:
  "makeGraphPostRequest example_host ''token'' submissionPath body
     = (Inr (JObj []), [Fetch (postRequest example_host ''token'' submissionPath body)])"
  "makeGraphPostRequest forbidden_host ''token'' submissionPath body
     = (Inl (Error ''403 Forbidden: Forbidden''),
        [Fetch (postRequest forbidden_host ''token'' submissionPath body)])"
proof -
  have p: "submissionPath \<noteq> []" "prefix ''/'' submissionPath"
    by (simp_all add: submissionPath_def)
  have d: "digits 403 = ''403''"
    by (simp add: digits.simps)
  show "makeGraphPostRequest example_host ''token'' submissionPath body
     = (Inr (JObj []), [Fetch (postRequest example_host ''token'' submissionPath body)])"
    by (simp add: makeGraphPostRequest_valid [OF p] example_host_def graph_service_def
        response_ok_def example_parse_def)
  show "makeGraphPostRequest forbidden_host ''token'' submissionPath body
     = (Inl (Error ''403 Forbidden: Forbidden''),
        [Fetch (postRequest forbidden_host ''token'' submissionPath body)])"
    by (simp add: makeGraphPostRequest_valid [OF p] forbidden_host_def example_host_def
        graph_service_def response_ok_def forbidden_def postErrorMessage_def bindE_def
        example_parse_def d)
qed

lemma example_submit:
  "submitEmailThreat example_host category
     = (Inr (JObj []),
        [Fetch (meRequest ''token''),
         Fetch (postRequest example_host ''token'' submissionPath
                  (report category ''user@contoso.com'' example_url))])"
  by (simp add: submitEmailThreat_eq example_token example_recipient example_messageUrl
      example_post)

section \<open>The command handler: one completion signal\<close>

text \<open>
  C1. Every invocation of \<^verbatim>\<open>onSpamReport\<close> sends exactly one completion signal, and
  it is the last thing the run does: \<^verbatim>\<open>completed({allowEvent: true})\<close> when the
  initialization and \<^verbatim>\<open>submitEmailThreat\<close> succeed, \<^verbatim>\<open>completed({allowEvent: false})\<close>
  when a step raises an error. No run signals zero times or more than once, and the
  handler itself never throws.
\<close>

theorem onSpamReport_completes_once:
  "\<exists>category evs.
     reportCategory options = Inr category \<and> completions evs = [] \<and>
     onSpamReport h options =
       (Inr (), evs @ [Completed (succeeded (initialize h) \<and>
                                  succeeded (fst (submitEmailThreat h category)))]) \<and>
     completions (snd (onSpamReport h options)) =
       [succeeded (initialize h) \<and> succeeded (fst (submitEmailThreat h category))]"
proof -
  obtain category where c: "reportCategory options = Inr category"
    by (simp add: reportCategory_eq)
  obtain r evs where s: "submitEmailThreat h category = (r, evs)"
    by (cases "submitEmailThreat h category")
  have n: "completions evs = []"
    using submitEmailThreat_no_completions [of h category] s by simp
  let ?allow = "succeeded (initialize h) \<and> succeeded (fst (submitEmailThreat h category))"
  have "\<exists>evs. completions evs = [] \<and> onSpamReport h options = (Inr (), evs @ [Completed ?allow])"
  proof (cases "initialize h")
    case (Inl e)
    then have "onSpamReport h options = (Inr (), [] @ [Completed ?allow])"
      by (simp add: onSpamReport_eq succeeded_def)
    then show ?thesis using completions.simps(1) by blast
  next
    case (Inr u)
    then have "onSpamReport h options = (Inr (), evs @ [Completed ?allow])"
      using c s by (cases r) (simp_all add: onSpamReport_eq succeeded_def)
    then show ?thesis using n by blast
  qed
  then obtain evs' where e: "completions evs' = []"
    "onSpamReport h options = (Inr (), evs' @ [Completed ?allow])"
    by blast
  have "completions (snd (onSpamReport h options)) = [?allow]"
    using e by (simp add: completions_append)
  then show ?thesis using c e by blast
qed

theorem onSpamReport_completes_once_witness:
  "completions (snd (onSpamReport example_host (JObj [(''1'', JBool True)]))) = [True] \<and>
   completions (snd (onSpamReport forbidden_host JUndefined)) = [False] \<and>
   completions (snd (onSpamReport uninitialized_host JUndefined)) = [False]"
proof -
  note t = onSpamReport_completes_once
  have c: "reportCategory (JObj [(''1'', JBool True)]) = Inr Spam"
    "reportCategory JUndefined = Inr Phishing"
    by (simp_all add: reportCategory_eq digits_small)
  have i: "succeeded (initialize example_host)" "succeeded (initialize forbidden_host)"
    "\<not> succeeded (initialize uninitialized_host)"
    by (simp_all add: succeeded_def example_host_def forbidden_host_def uninitialized_host_def)
  have s: "succeeded (fst (submitEmailThreat example_host Spam))"
    by (simp add: example_submit succeeded_def)
  have f: "\<not> succeeded (fst (submitEmailThreat forbidden_host Phishing))"
    by (simp add: submitEmailThreat_eq example_token example_recipient example_messageUrl
        example_post succeeded_def)
  have 1: "completions (snd (onSpamReport example_host (JObj [(''1'', JBool True)]))) = [True]"
    using t [of "JObj [(''1'', JBool True)]" example_host] c i s by auto
  have 2: "completions (snd (onSpamReport forbidden_host JUndefined)) = [False]"
    using t [of JUndefined forbidden_host] c i f by auto
  have 3: "completions (snd (onSpamReport uninitialized_host JUndefined)) = [False]"
    using t [of JUndefined uninitialized_host] c i by auto
  show ?thesis using 1 2 3 by (intro conjI)
qed

section \<open>The Graph client\<close>

text \<open>
  C2, as amended. For a response whose status is not a success,
  \<^verbatim>\<open>makeGraphPostRequest\<close> fails with an \<^verbatim>\<open>Error\<close> whose message is the status code,
  a space and the status text, followed by a colon and the embedded message when the
  body parses as JSON with a truthy \<^verbatim>\<open>error\<close> that has a truthy \<^verbatim>\<open>message\<close>, by the
  JSON of the \<^verbatim>\<open>error\<close> when it has no such message, by nothing when the parsed body has
  no truthy \<^verbatim>\<open>error\<close>, and by the raw response text when parsing the body or reading
  the message throws. \<^verbatim>\<open>makeGraphRequest\<close> fails with an \<^verbatim>\<open>Error\<close> whose message is
  the status text alone. In particular a 403 answer to the POST whose body parses to
  \<^verbatim>\<open>{"error":{"message":"Forbidden"}}\<close> gives a message that contains both
  \<^verbatim>\<open>403\<close> and \<^verbatim>\<open>Forbidden\<close>.
\<close>

theorem graph_client_failure:
  "(path \<noteq> [] \<and> prefix ''/'' path \<and> (queryParams = [] \<or> prefix ''?'' queryParams) \<and>
    fetch h (getRequest accessToken path queryParams) = Inr response \<and> \<not> response_ok response
    \<longrightarrow> fst (makeGraphRequest h accessToken path queryParams)
          = Inl (Error (statusText response))) \<and>
   (path \<noteq> [] \<and> prefix ''/'' path \<and>
    fetch h (postRequest h accessToken path body) = Inr response \<and> \<not> response_ok response
    \<longrightarrow> fst (makeGraphPostRequest h accessToken path body)
          = Inl (Error (postErrorMessage h response))) \<and>
   (JSON_parse h (responseText response) = Inr errorData \<and>
    js_prop errorData ''error'' = Inr err \<and> truthy err \<and>
    js_prop err ''message'' = Inr msg \<and> truthy msg \<and> ToString msg = Inr shown
    \<longrightarrow> postErrorMessage h response
          = digits (status response) @ '' '' @ statusText response @ '': '' @ shown) \<and>
   (JSON_parse h (responseText response) = Inr errorData \<and>
    js_prop errorData ''error'' = Inr err \<and> truthy err \<and>
    js_prop err ''message'' = Inr msg \<and> \<not> truthy msg
    \<longrightarrow> postErrorMessage h response
          = digits (status response) @ '' '' @ statusText response @ '': ''
              @ JSON_stringify h err) \<and>
   (JSON_parse h (responseText response) = Inr errorData \<and>
    js_prop errorData ''error'' = Inr err \<and> \<not> truthy err
    \<longrightarrow> postErrorMessage h response
          = digits (status response) @ '' '' @ statusText response) \<and>
   (JSON_parse h (responseText response) = Inl e \<or>
    (JSON_parse h (responseText response) = Inr errorData \<and>
     js_prop errorData ''error'' = Inl e) \<or>
    (JSON_parse h (responseText response) = Inr errorData \<and>
     js_prop errorData ''error'' = Inr err \<and> truthy err \<and>
     js_prop err ''message'' = Inr msg \<and> truthy msg \<and> ToString msg = Inl e)
    \<longrightarrow> postErrorMessage h response
          = digits (status response) @ '' '' @ statusText response @ '': ''
              @ responseText response) \<and>
   (path \<noteq> [] \<and> prefix ''/'' path \<and>
    fetch h (postRequest h accessToken path body) = Inr response \<and> status response = 403 \<and>
    JSON_parse h (responseText response)
      = Inr (JObj [(''error'', JObj [(''message'', JStr ''Forbidden'')])])
    \<longrightarrow> fst (makeGraphPostRequest h accessToken path body)
            = Inl (Error (''403 '' @ statusText response @ '': Forbidden'')) \<and>
        sublist ''403'' (''403 '' @ statusText response @ '': Forbidden'') \<and>
        sublist ''Forbidden'' (''403 '' @ statusText response @ '': Forbidden''))"
proof (intro conjI impI)
  show "sublist ''403'' (''403 '' @ statusText response @ '': Forbidden'')"
    using sublist_append_rightI [of "''403''" "'' '' @ statusText response @ '': Forbidden''"]
    by simp
  show "sublist ''Forbidden'' (''403 '' @ statusText response @ '': Forbidden'')"
    using sublist_appendI [of "''Forbidden''" "''403 '' @ statusText response @ '': ''" "[]"]
    by simp
  have d403: "digits 403 = ''403''"
    by (simp add: digits.simps)
  show "fst (makeGraphPostRequest h accessToken path body)
            = Inl (Error (''403 '' @ statusText response @ '': Forbidden''))"
    if "path \<noteq> [] \<and> prefix ''/'' path \<and>
      fetch h (postRequest h accessToken path body) = Inr response \<and> status response = 403 \<and>
      JSON_parse h (responseText response)
        = Inr (JObj [(''error'', JObj [(''message'', JStr ''Forbidden'')])])"
    using that
    by (simp add: makeGraphPostRequest_valid response_ok_def postErrorMessage_def bindE_def d403)
qed (auto simp add: makeGraphRequest_valid makeGraphPostRequest_valid postErrorMessage_def
       bindE_def)

theorem graph_client_failure_witness:
  "fst (makeGraphRequest refusing_host ''token'' ''/me'' ''?$select=id'')
     = Inl (Error ''Forbidden'') \<and>
   fst (makeGraphPostRequest forbidden_host ''token'' submissionPath
          (report Phishing ''user@contoso.com'' example_url))
     = Inl (Error (postErrorMessage forbidden_host forbidden)) \<and>
   postErrorMessage forbidden_host forbidden = ''403 Forbidden: Forbidden'' \<and>
   postErrorMessage example_host denied = ''401 Unauthorized: '' @ example_stringify (JStr ''denied'') \<and>
   postErrorMessage example_host server_error = ''500 Internal Server Error'' \<and>
   postErrorMessage example_host unavailable = ''503 Service Unavailable: try later'' \<and>
   fst (makeGraphPostRequest forbidden_host ''token'' submissionPath
          (report Phishing ''user@contoso.com'' example_url))
     = Inl (Error ''403 Forbidden: Forbidden'') \<and>
   sublist ''403'' ''403 Forbidden: Forbidden'' \<and>
   sublist ''Forbidden'' ''403 Forbidden: Forbidden''"
proof -
  let ?body = "report Phishing ''user@contoso.com'' example_url"
  note t = graph_client_failure
  have d: "digits 403 = ''403''" "digits 401 = ''401''" "digits 500 = ''500''"
    "digits 503 = ''503''"
    by (simp_all add: digits.simps)
  have s: "statusText forbidden = ''Forbidden''" "status forbidden = 403"
    by (simp_all add: forbidden_def)
  have p1: "''/me'' \<noteq> [] \<and> prefix ''/'' ''/me'' \<and>
      (''?$select=id'' = [] \<or> prefix ''?'' ''?$select=id'') \<and>
      fetch refusing_host (getRequest ''token'' ''/me'' ''?$select=id'') = Inr forbidden \<and>
      \<not> response_ok forbidden"
    by (simp add: refusing_host_def example_host_def response_ok_def forbidden_def)
  have p2: "submissionPath \<noteq> [] \<and> prefix ''/'' submissionPath \<and>
      fetch forbidden_host (postRequest forbidden_host ''token'' submissionPath ?body)
        = Inr forbidden \<and>
      \<not> response_ok forbidden"
    by (simp add: forbidden_host_def example_host_def graph_service_def submissionPath_def
        response_ok_def forbidden_def)
  have p3: "JSON_parse forbidden_host (responseText forbidden)
        = Inr (JObj [(''error'', JObj [(''message'', JStr ''Forbidden'')])]) \<and>
      js_prop (JObj [(''error'', JObj [(''message'', JStr ''Forbidden'')])]) ''error''
        = Inr (JObj [(''message'', JStr ''Forbidden'')]) \<and>
      truthy (JObj [(''message'', JStr ''Forbidden'')]) \<and>
      js_prop (JObj [(''message'', JStr ''Forbidden'')]) ''message'' = Inr (JStr ''Forbidden'') \<and>
      truthy (JStr ''Forbidden'') \<and> ToString (JStr ''Forbidden'') = Inr ''Forbidden''"
    by (simp add: forbidden_host_def example_host_def forbidden_def example_parse_def)
  have p4: "JSON_parse example_host (responseText denied) = Inr (JObj [(''error'', JStr ''denied'')]) \<and>
      js_prop (JObj [(''error'', JStr ''denied'')]) ''error'' = Inr (JStr ''denied'') \<and>
      truthy (JStr ''denied'') \<and>
      js_prop (JStr ''denied'') ''message'' = Inr JUndefined \<and> \<not> truthy JUndefined"
    by (simp add: example_host_def denied_def example_parse_def)
  have p5: "JSON_parse example_host (responseText server_error) = Inr (JObj []) \<and>
      js_prop (JObj []) ''error'' = Inr JUndefined \<and> \<not> truthy JUndefined"
    by (simp add: example_host_def server_error_def example_parse_def)
  have p6: "JSON_parse example_host (responseText unavailable) = Inl SyntaxError \<or>
    (JSON_parse example_host (responseText unavailable) = Inr JNull \<and>
     js_prop JNull ''error'' = Inl SyntaxError) \<or>
    (JSON_parse example_host (responseText unavailable) = Inr JNull \<and>
     js_prop JNull ''error'' = Inr JNull \<and> truthy JNull \<and>
     js_prop JNull ''message'' = Inr JNull \<and> truthy JNull \<and> ToString JNull = Inl SyntaxError)"
    by (simp add: example_host_def unavailable_def example_parse_def)
  have p7: "submissionPath \<noteq> [] \<and> prefix ''/'' submissionPath \<and>
      fetch forbidden_host (postRequest forbidden_host ''token'' submissionPath ?body)
        = Inr forbidden \<and>
      status forbidden = 403 \<and>
      JSON_parse forbidden_host (responseText forbidden)
        = Inr (JObj [(''error'', JObj [(''message'', JStr ''Forbidden'')])])"
    using p2 p3 s by simp
  note c2 = conjunct2
  have 1: "fst (makeGraphRequest refusing_host ''token'' ''/me'' ''?$select=id'')
     = Inl (Error ''Forbidden'')"
    using t [THEN conjunct1, THEN mp, OF p1] s by simp
  note 2 = t [THEN c2, THEN conjunct1, THEN mp, OF p2]
  have 3: "postErrorMessage forbidden_host forbidden = ''403 Forbidden: Forbidden''"
    using t [THEN c2, THEN c2, THEN conjunct1, THEN mp, OF p3] s d by simp
  have 4: "postErrorMessage example_host denied
      = ''401 Unauthorized: '' @ example_stringify (JStr ''denied'')"
    using t [THEN c2, THEN c2, THEN c2, THEN conjunct1, THEN mp, OF p4] d
    by (simp add: denied_def example_host_def)
  have 5: "postErrorMessage example_host server_error = ''500 Internal Server Error''"
    using t [THEN c2, THEN c2, THEN c2, THEN c2, THEN conjunct1, THEN mp, OF p5] d
    by (simp add: server_error_def)
  have 6: "postErrorMessage example_host unavailable = ''503 Service Unavailable: try later''"
    using t [THEN c2, THEN c2, THEN c2, THEN c2, THEN c2, THEN conjunct1, THEN mp, OF p6] d
    by (simp add: unavailable_def)
  have 7: "fst (makeGraphPostRequest forbidden_host ''token'' submissionPath ?body)
            = Inl (Error ''403 Forbidden: Forbidden'') \<and>
        sublist ''403'' ''403 Forbidden: Forbidden'' \<and>
        sublist ''Forbidden'' ''403 Forbidden: Forbidden''"
    using t [THEN c2, THEN c2, THEN c2, THEN c2, THEN c2, THEN c2, THEN mp, OF p7] s by simp
  show ?thesis
    using 1 2 3 4 5 6 7 by (intro conjI) simp_all
qed

text \<open>
  C2 as first stated fails: for the same 403 answer \<^verbatim>\<open>makeGraphRequest\<close> throws an
  error whose message is the status text, without the status code; and for a 500
  answer to the POST whose body is the JSON text \<^verbatim>\<open>{}\<close>, the message carries neither an
  embedded message nor the raw text.
\<close>

theorem graph_client_failure_counterexample:
  "fst (makeGraphRequest refusing_host ''token'' ''/me'' ''?$select=id'')
     = Inl (Error ''Forbidden'') \<and>
   \<not> sublist ''403'' ''Forbidden'' \<and>
   fst (makeGraphPostRequest failing_host ''token'' ''/security/threatSubmission/emailThreats''
          (report Phishing ''user@contoso.com'' ''url''))
     = Inl (Error ''500 Internal Server Error'') \<and>
   \<not> sublist ''{}'' ''500 Internal Server Error''"
proof -
  have d: "digits 500 = ''500''"
    by (simp add: digits.simps)
  have a: "fst (makeGraphRequest refusing_host ''token'' ''/me'' ''?$select=id'')
     = Inl (Error ''Forbidden'')"
    by (simp add: makeGraphRequest_valid refusing_host_def example_host_def response_ok_def
        forbidden_def)
  have b: "fst (makeGraphPostRequest failing_host ''token''
                  ''/security/threatSubmission/emailThreats''
                  (report Phishing ''user@contoso.com'' ''url''))
     = Inl (Error ''500 Internal Server Error'')"
    by (simp add: makeGraphPostRequest_valid failing_host_def example_host_def graph_service_def
        postRequest_def response_ok_def postErrorMessage_def bindE_def example_parse_def
        server_error_def d)
  have c: "\<not> sublist ''403'' ''Forbidden''"
    by (simp add: sublist_code(3))
  have e: "\<not> sublist ''{}'' ''500 Internal Server Error''"
    by (simp add: sublist_code(3))
  show ?thesis using a b c e by blast
qed

text \<open>
  C8. Both operations check their inputs before any request is made: an empty path, or a
  path that does not begin with \<^verbatim>\<open>/\<close>, raises an error, and for \<^verbatim>\<open>makeGraphRequest\<close>
  so do query parameters that are not empty and do not begin with \<^verbatim>\<open>?\<close>. In each
  case the run has no event.
\<close>

theorem graph_client_preconditions:
  "(path = [] \<longrightarrow>
      makeGraphRequest h accessToken path queryParams = (Inl (Error ''path is required.''), []) \<and>
      makeGraphPostRequest h accessToken path body = (Inl (Error ''path is required.''), [])) \<and>
   (path \<noteq> [] \<and> \<not> prefix ''/'' path \<longrightarrow>
      makeGraphRequest h accessToken path queryParams
        = (Inl (Error ''path must start with '/'.''), []) \<and>
      makeGraphPostRequest h accessToken path body
        = (Inl (Error ''path must start with '/'.''), [])) \<and>
   (prefix ''/'' path \<and> queryParams \<noteq> [] \<and> \<not> prefix ''?'' queryParams \<longrightarrow>
      makeGraphRequest h accessToken path queryParams
        = (Inl (Error ''queryParams must start with '?'.''), [])) \<and>
   (queryParams \<noteq> [] \<and> \<not> prefix ''?'' queryParams \<longrightarrow>
      (\<exists>message. makeGraphRequest h accessToken path queryParams = (Inl (Error message), [])))"
  by (auto simp add: makeGraphRequest_def makeGraphPostRequest_def throw_def)

theorem graph_client_preconditions_witness:
  "makeGraphRequest example_host ''token'' [] ''?$select=id''
     = (Inl (Error ''path is required.''), []) \<and>
   makeGraphPostRequest example_host ''token'' [] JNull
     = (Inl (Error ''path is required.''), []) \<and>
   makeGraphRequest example_host ''token'' ''me'' ''?$select=id''
     = (Inl (Error ''path must start with '/'.''), []) \<and>
   makeGraphPostRequest example_host ''token'' ''me'' JNull
     = (Inl (Error ''path must start with '/'.''), []) \<and>
   makeGraphRequest example_host ''token'' ''/me'' ''$select=id''
     = (Inl (Error ''queryParams must start with '?'.''), []) \<and>
   (\<exists>message. makeGraphRequest example_host ''token'' ''me'' ''$select=id''
      = (Inl (Error message), []))"
proof -
  note t = graph_client_preconditions
  have a: "([] :: string) = []"
    by simp
  have b: "''me'' \<noteq> [] \<and> \<not> prefix ''/'' ''me''"
    by simp
  have c: "prefix ''/'' ''/me'' \<and> ''$select=id'' \<noteq> [] \<and> \<not> prefix ''?'' ''$select=id''"
    by simp
  have d: "''$select=id'' \<noteq> [] \<and> \<not> prefix ''?'' ''$select=id''"
    by simp
  show ?thesis
    using t [THEN conjunct1, THEN mp, OF a, of example_host "''token''" "''?$select=id''" JNull]
      t [THEN conjunct2, THEN conjunct1, THEN mp, OF b,
         of example_host "''token''" "''?$select=id''" JNull]
      t [THEN conjunct2, THEN conjunct2, THEN conjunct1, THEN mp, OF c,
         of example_host "''token''"]
      t [THEN conjunct2, THEN conjunct2, THEN conjunct2, THEN mp, OF d,
         of example_host "''token''" "''me''"]
    by simp
qed

section \<open>Identity resolution\<close>

text \<open>
  C9. Given the profile that \<^verbatim>\<open>GET /me\<close> returned, \<^verbatim>\<open>getCurrentUserId\<close> returns its
  identifier when the profile has one (its \<^verbatim>\<open>id\<close> is truthy) and fails with an error
  when it lacks one (no \<^verbatim>\<open>id\<close>, or a falsy one). \<^verbatim>\<open>getRecipientEmailAddress\<close> returns
  the mailbox address of the host's user profile when there is one, and fails with an
  error when it is absent (no profile, no address, or an empty one).
\<close>

theorem identity_resolution:
  "(makeGraphRequest h accessToken ''/me'' ''?$select=id'' = (Inr profile, evs) \<longrightarrow>
      (\<forall>userId. js_prop profile ''id'' = Inr userId \<and> truthy userId \<longrightarrow>
         getCurrentUserId h accessToken = (Inr userId, evs)) \<and>
      ((\<forall>userId. js_prop profile ''id'' = Inr userId \<longrightarrow> \<not> truthy userId) \<longrightarrow>
         getCurrentUserId h accessToken
           = (Inl (Error ''Unable to retrieve user ID from Graph API''), evs))) \<and>
   (\<forall>profile address.
      mailbox_userProfile h = Some profile \<and> emailAddress profile = Some address \<and> address \<noteq> []
      \<longrightarrow> getRecipientEmailAddress h = (Inr address, [])) \<and>
   ((\<forall>profile address.
       mailbox_userProfile h = Some profile \<and> emailAddress profile = Some address
       \<longrightarrow> address = [])
      \<longrightarrow> getRecipientEmailAddress h = (Inl (Error ''Unable to get user email address''), []))"
  apply (intro conjI impI allI)
     apply (simp add: getCurrentUserId_eq)
    apply (simp add: getCurrentUserId_eq split: sum.splits)
   apply (simp add: getRecipientEmailAddress_def ret_def)
  apply (auto simp add: getRecipientEmailAddress_def ret_def throw_def split: option.splits)
  done

theorem identity_resolution_witness:
  "getCurrentUserId example_host ''token'' = (Inr (JStr ''u1''), [Fetch (meRequest ''token'')]) \<and>
   getCurrentUserId anonymous_host ''token''
     = (Inl (Error ''Unable to retrieve user ID from Graph API''),
        [Fetch (meRequest ''token'')]) \<and>
   getRecipientEmailAddress example_host = (Inr ''user@contoso.com'', []) \<and>
   getRecipientEmailAddress no_profile_host
     = (Inl (Error ''Unable to get user email address''), [])"
proof -
  note t = identity_resolution
  have a: "js_prop (JObj [(''id'', JStr ''u1'')]) ''id'' = Inr (JStr ''u1'') \<and> truthy (JStr ''u1'')"
    by simp
  have b: "\<forall>userId. js_prop (JObj []) ''id'' = Inr userId \<longrightarrow> \<not> truthy userId"
    by simp
  have c: "mailbox_userProfile example_host = Some \<lparr>emailAddress = Some ''user@contoso.com''\<rparr> \<and>
      emailAddress \<lparr>emailAddress = Some ''user@contoso.com''\<rparr> = Some ''user@contoso.com'' \<and>
      ''user@contoso.com'' \<noteq> []"
    by (simp add: example_host_def)
  have d: "\<forall>profile address.
       mailbox_userProfile no_profile_host = Some profile \<and> emailAddress profile = Some address
       \<longrightarrow> address = []"
    by (simp add: no_profile_host_def)
  show ?thesis
    using t [THEN conjunct1, THEN mp, OF example_profile, THEN conjunct1, THEN spec, THEN mp, OF a]
      t [THEN conjunct1, THEN mp, OF anonymous_me, THEN conjunct2, THEN mp, OF b]
      t [THEN conjunct2, THEN conjunct1, THEN spec, THEN spec, THEN mp, OF c]
      t [THEN conjunct2, THEN conjunct2, THEN mp, OF d]
    by (intro conjI)
qed

section \<open>The message URL\<close>

text \<open>
  C6. When a message is selected and its identifier is available,
  \<^verbatim>\<open>getCurrentMessageUrl\<close> converts the identifier with the host's \<^verbatim>\<open>convertToRestId\<close>
  and returns the Graph base, \<^verbatim>\<open>/users/\<close>, the resolved user identifier,
  \<^verbatim>\<open>/messages/\<close> and the converted identifier. For the identifier \<^verbatim>\<open>AAA=\<close> and the
  user \<^verbatim>\<open>u1\<close> this is
  \<^verbatim>\<open>https://graph.microsoft.com/beta/users/u1/messages/\<close> followed by the converted
  \<^verbatim>\<open>AAA=\<close>.
\<close>

theorem getCurrentMessageUrl_form:
  "(mailbox_item h = Some item \<and> itemId item = Some ident \<and> ident \<noteq> [] \<and>
    getCurrentUserId h accessToken = (Inr userId, evs) \<and>
    convertToRestId h ident = Inr restId \<and> ToString userId = Inr userIdText
    \<longrightarrow> getCurrentMessageUrl h accessToken
          = (Inr (graphBase @ ''/users/'' @ userIdText @ ''/messages/'' @ restId), evs)) \<and>
   (mailbox_item h = Some item \<and> itemId item = Some ''AAA='' \<and>
    getCurrentUserId h accessToken = (Inr (JStr ''u1''), evs) \<and>
    convertToRestId h ''AAA='' = Inr restId
    \<longrightarrow> getCurrentMessageUrl h accessToken
          = (Inr (''https://graph.microsoft.com/beta/users/u1/messages/'' @ restId), evs))"
  by (auto simp add: getCurrentMessageUrl_selected graphBase_def)

theorem getCurrentMessageUrl_form_witness:
  "mailbox_item example_host = Some \<lparr>itemId = Some ''AAA=''\<rparr> \<and>
   getCurrentUserId example_host ''token'' = (Inr (JStr ''u1''), [Fetch (meRequest ''token'')]) \<and>
   convertToRestId example_host ''AAA='' = Inr ''AAA='' \<and>
   getCurrentMessageUrl example_host ''token''
     = (Inr (graphBase @ ''/users/'' @ ''u1'' @ ''/messages/'' @ ''AAA=''),
        [Fetch (meRequest ''token'')]) \<and>
   getCurrentMessageUrl example_host ''token''
     = (Inr ''https://graph.microsoft.com/beta/users/u1/messages/AAA='',
        [Fetch (meRequest ''token'')])"
proof -
  note t = getCurrentMessageUrl_form
  have a: "mailbox_item example_host = Some \<lparr>itemId = Some ''AAA=''\<rparr>"
    by (simp add: example_host_def)
  have c: "convertToRestId example_host ''AAA='' = Inr ''AAA=''"
    by (simp add: example_host_def)
  have g: "mailbox_item example_host = Some \<lparr>itemId = Some ''AAA=''\<rparr> \<and>
      itemId \<lparr>itemId = Some ''AAA=''\<rparr> = Some ''AAA='' \<and> ''AAA='' \<noteq> [] \<and>
      getCurrentUserId example_host ''token''
        = (Inr (JStr ''u1''), [Fetch (meRequest ''token'')]) \<and>
      convertToRestId example_host ''AAA='' = Inr ''AAA='' \<and> ToString (JStr ''u1'') = Inr ''u1''"
    using a c example_me by simp
  have p: "mailbox_item example_host = Some \<lparr>itemId = Some ''AAA=''\<rparr> \<and>
      itemId \<lparr>itemId = Some ''AAA=''\<rparr> = Some ''AAA='' \<and>
      getCurrentUserId example_host ''token''
        = (Inr (JStr ''u1''), [Fetch (meRequest ''token'')]) \<and>
      convertToRestId example_host ''AAA='' = Inr ''AAA=''"
    using a c example_me by simp
  show ?thesis
    using a c example_me t [THEN conjunct1, THEN mp, OF g] t [THEN conjunct2, THEN mp, OF p]
    by simp
qed

section \<open>The report submitter\<close>

text \<open>
  C7. An error raised by a step of \<^verbatim>\<open>submitEmailThreat\<close> (the token, the recipient, the
  message URL, the POST) is the error \<^verbatim>\<open>submitEmailThreat\<close> throws, unchanged, and the
  events of the run are those of the steps up to the failing one. Nothing is retried:
  the requests of a run are an initial part of the profile request followed by the
  submission, each made at most once.
\<close>

theorem submitEmailThreat_propagates:
  "(ssoGetAccessToken h submissionScopes = Inl e
      \<longrightarrow> submitEmailThreat h category = (Inl e, [])) \<and>
   (ssoGetAccessToken h submissionScopes = Inr accessToken \<and>
    fst (getRecipientEmailAddress h) = Inl e
      \<longrightarrow> submitEmailThreat h category = (Inl e, [])) \<and>
   (ssoGetAccessToken h submissionScopes = Inr accessToken \<and>
    fst (getRecipientEmailAddress h) = Inr recipientEmail \<and>
    getCurrentMessageUrl h accessToken = (Inl e, evs)
      \<longrightarrow> submitEmailThreat h category = (Inl e, evs)) \<and>
   (ssoGetAccessToken h submissionScopes = Inr accessToken \<and>
    fst (getRecipientEmailAddress h) = Inr recipientEmail \<and>
    getCurrentMessageUrl h accessToken = (Inr messageUrl, evs) \<and>
    makeGraphPostRequest h accessToken submissionPath (report category recipientEmail messageUrl)
      = (Inl e, evs')
      \<longrightarrow> submitEmailThreat h category = (Inl e, evs @ evs')) \<and>
   (\<exists>accessToken recipientEmail messageUrl.
      prefix (requests (snd (submitEmailThreat h category)))
        [meRequest accessToken,
         postRequest h accessToken submissionPath (report category recipientEmail messageUrl)])"
proof (intro conjI impI)
  show "\<exists>accessToken recipientEmail messageUrl.
      prefix (requests (snd (submitEmailThreat h category)))
        [meRequest accessToken,
         postRequest h accessToken submissionPath (report category recipientEmail messageUrl)]"
    using submitEmailThreat_runs [of h category]
    by (elim disjE exE conjE) auto
qed (simp_all add: submitEmailThreat_eq)

theorem submitEmailThreat_propagates_witness:
  "submitEmailThreat no_token_host Spam = (Inl (Error ''consent required''), []) \<and>
   submitEmailThreat no_profile_host Spam
     = (Inl (Error ''Unable to get user email address''), []) \<and>
   submitEmailThreat no_item_host Spam
     = (Inl (Error ''No email item is currently selected.''), []) \<and>
   makeGraphPostRequest forbidden_host ''token'' submissionPath
       (report Spam ''user@contoso.com'' example_url)
     = (Inl (Error ''403 Forbidden: Forbidden''),
        [Fetch (postRequest forbidden_host ''token'' submissionPath
                  (report Spam ''user@contoso.com'' example_url))]) \<and>
   submitEmailThreat forbidden_host Spam
     = (Inl (Error ''403 Forbidden: Forbidden''),
        [Fetch (meRequest ''token'')] @
        [Fetch (postRequest forbidden_host ''token'' submissionPath
                  (report Spam ''user@contoso.com'' example_url))])"
proof -
  have a: "ssoGetAccessToken no_token_host submissionScopes = Inl (Error ''consent required'')"
    by (simp add: no_token_host_def example_host_def)
  have b: "ssoGetAccessToken no_profile_host submissionScopes = Inr ''token'' \<and>
      fst (getRecipientEmailAddress no_profile_host)
        = Inl (Error ''Unable to get user email address'')"
    by (simp add: example_token example_recipient)
  have c: "ssoGetAccessToken no_item_host submissionScopes = Inr ''token'' \<and>
      fst (getRecipientEmailAddress no_item_host) = Inr ''user@contoso.com'' \<and>
      getCurrentMessageUrl no_item_host ''token''
        = (Inl (Error ''No email item is currently selected.''), [])"
    by (simp add: example_token example_recipient example_messageUrl)
  have d: "ssoGetAccessToken forbidden_host submissionScopes = Inr ''token'' \<and>
      fst (getRecipientEmailAddress forbidden_host) = Inr ''user@contoso.com'' \<and>
      getCurrentMessageUrl forbidden_host ''token''
        = (Inr example_url, [Fetch (meRequest ''token'')]) \<and>
      makeGraphPostRequest forbidden_host ''token'' submissionPath
          (report Spam ''user@contoso.com'' example_url)
        = (Inl (Error ''403 Forbidden: Forbidden''),
           [Fetch (postRequest forbidden_host ''token'' submissionPath
                     (report Spam ''user@contoso.com'' example_url))])"
    by (simp add: example_token example_recipient example_messageUrl example_post)
  note t = submitEmailThreat_propagates
  show ?thesis
    using t [THEN conjunct1, THEN mp, OF a]
      t [THEN conjunct2, THEN conjunct1, THEN mp, OF b]
      t [THEN conjunct2, THEN conjunct2, THEN conjunct1, THEN mp, OF c]
      t [THEN conjunct2, THEN conjunct2, THEN conjunct2, THEN conjunct1, THEN mp, OF d]
      d
    by simp
qed

text \<open>The fields of the report and of the request that carries it.\<close>

lemma report_fields:
  "report category recipientEmail messageUrl =
     JObj [(''@odata.type'', JStr ''#microsoft.graph.security.emailUrlThreatSubmission''),
           (''category'', JStr (category_name category)),
           (''recipientEmailAddress'', JStr recipientEmail),
           (''messageUrl'', JStr messageUrl)]"
  "js_prop (report category recipientEmail messageUrl) ''@odata.type''
     = Inr (JStr ''#microsoft.graph.security.emailUrlThreatSubmission'')"
  "js_prop (report category recipientEmail messageUrl) ''category''
     = Inr (JStr (category_name category))"
  "js_prop (report category recipientEmail messageUrl) ''recipientEmailAddress''
     = Inr (JStr recipientEmail)"
  "js_prop (report category recipientEmail messageUrl) ''messageUrl'' = Inr (JStr messageUrl)"
  by (simp_all add: report_def)

lemma postRequest_fields:
  "url (postRequest h accessToken path body) = graphBase @ path"
  "authorization (postRequest h accessToken path body) = accessToken"
  "contentType (postRequest h accessToken path body) = Some ''application/json''"
  "requestBody (postRequest h accessToken path body) = Some (JSON_stringify h body)"
  by (simp_all add: postRequest_def)

text \<open>
  C5. Every POST of a run of \<^verbatim>\<open>submitEmailThreat\<close> goes to the threat-submission
  endpoint and its body is the serialised report: an object of exactly the four fields
  \<^verbatim>\<open>@odata.type\<close>, \<^verbatim>\<open>category\<close>, \<^verbatim>\<open>recipientEmailAddress\<close> and
  \<^verbatim>\<open>messageUrl\<close>, where the recipient address and the message URL are the non-empty
  strings the two resolvers returned and the category is one of the three names
  \<^verbatim>\<open>phishing\<close>, \<^verbatim>\<open>spam\<close>, \<^verbatim>\<open>notJunk\<close>. The resolvers return non-empty strings or
  fail; when either fails, \<^verbatim>\<open>submitEmailThreat\<close> fails and its run has no POST.
\<close>

theorem submitEmailThreat_report_valid:
  "(\<forall>req \<in> set (requests (snd (submitEmailThreat h category))). httpMethod req = POST \<longrightarrow>
      (\<exists>accessToken recipientEmail messageUrl.
         req = postRequest h accessToken submissionPath
                 (report category recipientEmail messageUrl) \<and>
         url req = ''https://graph.microsoft.com/beta/security/threatSubmission/emailThreats'' \<and>
         requestBody req =
           Some (JSON_stringify h
             (JObj [(''@odata.type'',
                     JStr ''#microsoft.graph.security.emailUrlThreatSubmission''),
                    (''category'', JStr (category_name category)),
                    (''recipientEmailAddress'', JStr recipientEmail),
                    (''messageUrl'', JStr messageUrl)])) \<and>
         js_prop (report category recipientEmail messageUrl) ''category''
           = Inr (JStr (category_name category)) \<and>
         js_prop (report category recipientEmail messageUrl) ''recipientEmailAddress''
           = Inr (JStr recipientEmail) \<and>
         js_prop (report category recipientEmail messageUrl) ''messageUrl''
           = Inr (JStr messageUrl) \<and>
         fst (getRecipientEmailAddress h) = Inr recipientEmail \<and> recipientEmail \<noteq> [] \<and>
         fst (getCurrentMessageUrl h accessToken) = Inr messageUrl \<and> messageUrl \<noteq> [])) \<and>
   category_name category \<in> {''spam'', ''phishing'', ''notJunk''} \<and>
   category_name Phishing = ''phishing'' \<and> category_name Spam = ''spam'' \<and>
   category_name NotJunk = ''notJunk'' \<and>
   (fst (getRecipientEmailAddress h) = Inr recipientEmail \<longrightarrow> recipientEmail \<noteq> []) \<and>
   (fst (getCurrentMessageUrl h accessToken) = Inr messageUrl \<longrightarrow> messageUrl \<noteq> []) \<and>
   (ssoGetAccessToken h submissionScopes = Inr accessToken \<and>
    (\<not> succeeded (fst (getRecipientEmailAddress h)) \<or>
     \<not> succeeded (fst (getCurrentMessageUrl h accessToken)))
    \<longrightarrow> \<not> succeeded (fst (submitEmailThreat h category)) \<and>
        (\<forall>req \<in> set (requests (snd (submitEmailThreat h category))). httpMethod req \<noteq> POST))"
proof (intro conjI)
  show "\<forall>req \<in> set (requests (snd (submitEmailThreat h category))). httpMethod req = POST \<longrightarrow>
      (\<exists>accessToken recipientEmail messageUrl.
         req = postRequest h accessToken submissionPath
                 (report category recipientEmail messageUrl) \<and>
         url req = ''https://graph.microsoft.com/beta/security/threatSubmission/emailThreats'' \<and>
         requestBody req =
           Some (JSON_stringify h
             (JObj [(''@odata.type'',
                     JStr ''#microsoft.graph.security.emailUrlThreatSubmission''),
                    (''category'', JStr (category_name category)),
                    (''recipientEmailAddress'', JStr recipientEmail),
                    (''messageUrl'', JStr messageUrl)])) \<and>
         js_prop (report category recipientEmail messageUrl) ''category''
           = Inr (JStr (category_name category)) \<and>
         js_prop (report category recipientEmail messageUrl) ''recipientEmailAddress''
           = Inr (JStr recipientEmail) \<and>
         js_prop (report category recipientEmail messageUrl) ''messageUrl''
           = Inr (JStr messageUrl) \<and>
         fst (getRecipientEmailAddress h) = Inr recipientEmail \<and> recipientEmail \<noteq> [] \<and>
         fst (getCurrentMessageUrl h accessToken) = Inr messageUrl \<and> messageUrl \<noteq> [])"
    using submitEmailThreat_runs [of h category]
  proof (elim disjE exE conjE, goal_cases)
    case (5 tok r u)
    let ?post = "postRequest h tok submissionPath (report category r u)"
    have req: "requests (snd (submitEmailThreat h category)) = [meRequest tok, ?post]"
      using 5 by simp
    have u: "fst (getCurrentMessageUrl h tok) = Inr u"
      using 5 by simp
    have l: "url ?post
        = ''https://graph.microsoft.com/beta/security/threatSubmission/emailThreats''"
      by (simp add: postRequest_fields graphBase_def submissionPath_def)
    have b: "requestBody ?post =
        Some (JSON_stringify h
          (JObj [(''@odata.type'', JStr ''#microsoft.graph.security.emailUrlThreatSubmission''),
                 (''category'', JStr (category_name category)),
                 (''recipientEmailAddress'', JStr r),
                 (''messageUrl'', JStr u)]))"
      by (simp add: postRequest_fields report_fields(1))
    have "?post = ?post \<and>
         url ?post = ''https://graph.microsoft.com/beta/security/threatSubmission/emailThreats'' \<and>
         requestBody ?post =
           Some (JSON_stringify h
             (JObj [(''@odata.type'',
                     JStr ''#microsoft.graph.security.emailUrlThreatSubmission''),
                    (''category'', JStr (category_name category)),
                    (''recipientEmailAddress'', JStr r),
                    (''messageUrl'', JStr u)])) \<and>
         js_prop (report category r u) ''category'' = Inr (JStr (category_name category)) \<and>
         js_prop (report category r u) ''recipientEmailAddress'' = Inr (JStr r) \<and>
         js_prop (report category r u) ''messageUrl'' = Inr (JStr u) \<and>
         fst (getRecipientEmailAddress h) = Inr r \<and> r \<noteq> [] \<and>
         fst (getCurrentMessageUrl h tok) = Inr u \<and> u \<noteq> []"
      using l b u 5(2,3,5) report_fields(3,4,5) [of category r u] by (intro conjI) simp_all
    then have "\<exists>accessToken recipientEmail messageUrl.
         ?post = postRequest h accessToken submissionPath
                   (report category recipientEmail messageUrl) \<and>
         url ?post = ''https://graph.microsoft.com/beta/security/threatSubmission/emailThreats'' \<and>
         requestBody ?post =
           Some (JSON_stringify h
             (JObj [(''@odata.type'',
                     JStr ''#microsoft.graph.security.emailUrlThreatSubmission''),
                    (''category'', JStr (category_name category)),
                    (''recipientEmailAddress'', JStr recipientEmail),
                    (''messageUrl'', JStr messageUrl)])) \<and>
         js_prop (report category recipientEmail messageUrl) ''category''
           = Inr (JStr (category_name category)) \<and>
         js_prop (report category recipientEmail messageUrl) ''recipientEmailAddress''
           = Inr (JStr recipientEmail) \<and>
         js_prop (report category recipientEmail messageUrl) ''messageUrl''
           = Inr (JStr messageUrl) \<and>
         fst (getRecipientEmailAddress h) = Inr recipientEmail \<and> recipientEmail \<noteq> [] \<and>
         fst (getCurrentMessageUrl h accessToken) = Inr messageUrl \<and> messageUrl \<noteq> []"
      by (intro exI [of _ tok] exI [of _ r] exI [of _ u])
    then show ?case
      unfolding req by simp
  qed simp_all
  show "category_name category \<in> {''spam'', ''phishing'', ''notJunk''}"
    by (cases category) simp_all
  show "fst (getRecipientEmailAddress h) = Inr recipientEmail \<longrightarrow> recipientEmail \<noteq> []"
    using getRecipientEmailAddress_cases [of h] by auto
  show "fst (getCurrentMessageUrl h accessToken) = Inr messageUrl \<longrightarrow> messageUrl \<noteq> []"
    using getCurrentMessageUrl_nonempty by blast
  show "ssoGetAccessToken h submissionScopes = Inr accessToken \<and>
    (\<not> succeeded (fst (getRecipientEmailAddress h)) \<or>
     \<not> succeeded (fst (getCurrentMessageUrl h accessToken)))
    \<longrightarrow> \<not> succeeded (fst (submitEmailThreat h category)) \<and>
        (\<forall>req \<in> set (requests (snd (submitEmailThreat h category))). httpMethod req \<noteq> POST)"
    using submitEmailThreat_runs [of h category]
    by (elim disjE exE conjE) (auto simp add: succeeded_def)
qed simp_all

theorem submitEmailThreat_report_valid_witness:
  "requests (snd (submitEmailThreat example_host Spam))
     = [meRequest ''token'',
        postRequest example_host ''token'' submissionPath
          (report Spam ''user@contoso.com'' example_url)] \<and>
   (\<exists>accessToken recipientEmail messageUrl.
      postRequest example_host ''token'' submissionPath
          (report Spam ''user@contoso.com'' example_url)
        = postRequest example_host accessToken submissionPath
            (report Spam recipientEmail messageUrl) \<and>
      url (postRequest example_host ''token'' submissionPath
             (report Spam ''user@contoso.com'' example_url))
        = ''https://graph.microsoft.com/beta/security/threatSubmission/emailThreats'' \<and>
      requestBody (postRequest example_host ''token'' submissionPath
                     (report Spam ''user@contoso.com'' example_url)) =
        Some (JSON_stringify example_host
          (JObj [(''@odata.type'', JStr ''#microsoft.graph.security.emailUrlThreatSubmission''),
                 (''category'', JStr (category_name Spam)),
                 (''recipientEmailAddress'', JStr recipientEmail),
                 (''messageUrl'', JStr messageUrl)])) \<and>
      js_prop (report Spam recipientEmail messageUrl) ''category''
        = Inr (JStr (category_name Spam)) \<and>
      js_prop (report Spam recipientEmail messageUrl) ''recipientEmailAddress''
        = Inr (JStr recipientEmail) \<and>
      js_prop (report Spam recipientEmail messageUrl) ''messageUrl'' = Inr (JStr messageUrl) \<and>
      fst (getRecipientEmailAddress example_host) = Inr recipientEmail \<and>
      recipientEmail \<noteq> [] \<and>
      fst (getCurrentMessageUrl example_host accessToken) = Inr messageUrl \<and>
      messageUrl \<noteq> []) \<and>
   requestBody (postRequest example_host ''token'' submissionPath
                  (report Spam ''user@contoso.com'' example_url)) =
     Some (''{\"@odata.type\":\"#microsoft.graph.security.emailUrlThreatSubmission\",''
           @ ''\"category\":\"spam\",\"recipientEmailAddress\":\"user@contoso.com\",''
           @ ''\"messageUrl\":\"https://graph.microsoft.com/beta/users/u1/messages/AAA=\"}'') \<and>
   fst (getRecipientEmailAddress example_host) = Inr ''user@contoso.com'' \<and>
   ''user@contoso.com'' \<noteq> [] \<and>
   fst (getCurrentMessageUrl example_host ''token'') = Inr example_url \<and>
   example_url \<noteq> [] \<and>
   ssoGetAccessToken no_profile_host submissionScopes = Inr ''token'' \<and>
   \<not> succeeded (fst (getRecipientEmailAddress no_profile_host)) \<and>
   \<not> succeeded (fst (submitEmailThreat no_profile_host Spam)) \<and>
   requests (snd (submitEmailThreat no_profile_host Spam)) = []"
proof -
  let ?post = "postRequest example_host ''token'' submissionPath
          (report Spam ''user@contoso.com'' example_url)"
  note t = submitEmailThreat_report_valid
  note c2 = conjunct2
  have r: "requests (snd (submitEmailThreat example_host Spam)) = [meRequest ''token'', ?post]"
    by (simp add: example_submit)
  then have m: "?post \<in> set (requests (snd (submitEmailThreat example_host Spam)))"
    by simp
  have p: "httpMethod ?post = POST"
    by simp
  note e = t [THEN conjunct1, THEN bspec, OF m, THEN mp, OF p]
  have b: "requestBody ?post =
     Some (''{\"@odata.type\":\"#microsoft.graph.security.emailUrlThreatSubmission\",''
           @ ''\"category\":\"spam\",\"recipientEmailAddress\":\"user@contoso.com\",''
           @ ''\"messageUrl\":\"https://graph.microsoft.com/beta/users/u1/messages/AAA=\"}'')"
    by (simp add: postRequest_def example_host_def example_stringify_def quoted_def report_def
        example_url_def)
  have a: "fst (getRecipientEmailAddress example_host) = Inr ''user@contoso.com''"
    by (simp add: example_recipient)
  have u: "fst (getCurrentMessageUrl example_host ''token'') = Inr example_url"
    by (simp add: example_messageUrl)
  note a' = t [THEN c2, THEN c2, THEN c2, THEN c2, THEN c2, THEN conjunct1, THEN mp, OF a]
  note u' = t [THEN c2, THEN c2, THEN c2, THEN c2, THEN c2, THEN c2, THEN conjunct1,
               THEN mp, OF u]
  have n: "ssoGetAccessToken no_profile_host submissionScopes = Inr ''token'' \<and>
      (\<not> succeeded (fst (getRecipientEmailAddress no_profile_host)) \<or>
       \<not> succeeded (fst (getCurrentMessageUrl no_profile_host ''token'')))"
    by (simp add: example_token example_recipient succeeded_def)
  note f = t [THEN c2, THEN c2, THEN c2, THEN c2, THEN c2, THEN c2, THEN c2, THEN mp, OF n,
              THEN conjunct1]
  have g: "requests (snd (submitEmailThreat no_profile_host Spam)) = []"
    by (simp add: submitEmailThreat_eq example_token example_recipient)
  have h: "\<not> succeeded (fst (getRecipientEmailAddress no_profile_host))"
    by (simp add: example_recipient succeeded_def)
  show ?thesis
    using r e b a a' u u' f g h example_token(3) by (intro conjI)
qed

section \<open>Category selection\<close>

text \<open>
  C3. The handler maps the options to a category by positional precedence: index 0 is
  phishing, index 1 is spam, index 2 is notJunk, and the first index holding \<^verbatim>\<open>true\<close>
  in that order wins. So whenever index 0 holds \<^verbatim>\<open>true\<close> the category is phishing,
  whatever indices 1 and 2 hold.
\<close>

theorem reportCategory_precedence:
  "(js_index options 0 = Inr (JBool True) \<longrightarrow> reportCategory options = Inr Phishing) \<and>
   (js_index options 0 \<noteq> Inr (JBool True) \<and> js_index options 1 = Inr (JBool True)
      \<longrightarrow> reportCategory options = Inr Spam) \<and>
   (js_index options 0 \<noteq> Inr (JBool True) \<and> js_index options 1 \<noteq> Inr (JBool True) \<and>
    js_index options 2 = Inr (JBool True) \<longrightarrow> reportCategory options = Inr NotJunk)"
  by (simp add: reportCategory_eq)

theorem reportCategory_precedence_witness:
  "js_index (JObj [(''0'', JBool True), (''1'', JBool True), (''2'', JBool True)]) 0
     = Inr (JBool True) \<and>
   reportCategory (JObj [(''0'', JBool True), (''1'', JBool True), (''2'', JBool True)])
     = Inr Phishing \<and>
   reportCategory (JArr [JBool True, JBool False, JBool True]) = Inr Phishing \<and>
   reportCategory (JObj [(''0'', JBool False), (''1'', JBool True), (''2'', JBool True)])
     = Inr Spam \<and>
   reportCategory (JObj [(''2'', JBool True)]) = Inr NotJunk"
proof -
  let ?a = "JObj [(''0'', JBool True), (''1'', JBool True), (''2'', JBool True)]"
  let ?b = "JArr [JBool True, JBool False, JBool True]"
  let ?c = "JObj [(''0'', JBool False), (''1'', JBool True), (''2'', JBool True)]"
  let ?d = "JObj [(''2'', JBool True)]"
  have a: "js_index ?a 0 = Inr (JBool True)" by (simp add: digits_small)
  have b: "js_index ?b 0 = Inr (JBool True)" by simp
  have c: "js_index ?c 0 \<noteq> Inr (JBool True) \<and> js_index ?c 1 = Inr (JBool True)"
    by (simp add: digits_small)
  have d: "js_index ?d 0 \<noteq> Inr (JBool True) \<and> js_index ?d 1 \<noteq> Inr (JBool True) \<and>
    js_index ?d 2 = Inr (JBool True)"
    by (simp add: digits_small)
  from a b c d reportCategory_precedence [of ?a] reportCategory_precedence [of ?b]
    reportCategory_precedence [of ?c] reportCategory_precedence [of ?d]
  show ?thesis by blast
qed

text \<open>
  C4. When no entry of the options is \<^verbatim>\<open>true\<close> (no index reads as the boolean
  \<^verbatim>\<open>true\<close>), which includes an event whose \<^verbatim>\<open>options\<close> are missing, the category is
  the default, phishing.
\<close>

theorem reportCategory_default:
  assumes "\<And>i. js_index options i \<noteq> Inr (JBool True)"
  shows "reportCategory options = Inr Phishing"
  using assms by (simp add: reportCategory_eq)

theorem reportCategory_default_witness:
  "reportCategory JUndefined = Inr Phishing \<and>
   reportCategory JNull = Inr Phishing \<and>
   reportCategory (JObj []) = Inr Phishing \<and>
   reportCategory (JObj [(''0'', JBool False), (''1'', JBool False), (''2'', JNull)])
     = Inr Phishing"
proof -
  have a: "js_index JUndefined i \<noteq> Inr (JBool True)" for i by simp
  have n: "js_index JNull i \<noteq> Inr (JBool True)" for i by simp
  have b: "js_index (JObj []) i \<noteq> Inr (JBool True)" for i by simp
  have c: "js_index (JObj [(''0'', JBool False), (''1'', JBool False), (''2'', JNull)]) i
             \<noteq> Inr (JBool True)" for i by simp
  show ?thesis
    using reportCategory_default [of JUndefined, OF a]
      reportCategory_default [of JNull, OF n]
      reportCategory_default [of "JObj []", OF b]
      reportCategory_default [OF c]
    by simp
qed

text \<open>
  C10. The test is strict equality with the boolean \<^verbatim>\<open>true\<close>. An entry \<open>v\<close> at index
  \<open>i\<close> that is not exactly \<^verbatim>\<open>true\<close>, truthy or not (the number 1, the string
  \<^verbatim>\<open>"yes"\<close>), does not select the category of its index: the category is the one the
  other two indices give in their order, or the default phishing.
\<close>

theorem reportCategory_strict_equality:
  assumes "js_index options i = Inr v" and "v \<noteq> JBool True"
  shows "(i = 0 \<longrightarrow> reportCategory options =
            Inr (if js_index options 1 = Inr (JBool True) then Spam
                 else if js_index options 2 = Inr (JBool True) then NotJunk
                 else Phishing)) \<and>
         (i = 1 \<longrightarrow> reportCategory options =
            Inr (if js_index options 0 = Inr (JBool True) then Phishing
                 else if js_index options 2 = Inr (JBool True) then NotJunk
                 else Phishing)) \<and>
         (i = 2 \<longrightarrow> reportCategory options =
            Inr (if js_index options 0 = Inr (JBool True) then Phishing
                 else if js_index options 1 = Inr (JBool True) then Spam
                 else Phishing))"
proof -
  have "js_index options i \<noteq> Inr (JBool True)"
    using assms by simp
  then show ?thesis
    by (intro conjI impI) (simp_all add: reportCategory_eq)
qed

theorem reportCategory_strict_equality_witness:
  "truthy (JNum 1) \<and> truthy (JStr ''yes'') \<and>
   reportCategory (JObj [(''0'', JNum 1), (''1'', JBool True)]) = Inr Spam \<and>
   reportCategory (JObj [(''1'', JStr ''yes''), (''2'', JBool True)]) = Inr NotJunk \<and>
   reportCategory (JObj [(''2'', JStr ''yes'')]) = Inr Phishing"
proof -
  let ?a = "JObj [(''0'', JNum 1), (''1'', JBool True)]"
  let ?b = "JObj [(''1'', JStr ''yes''), (''2'', JBool True)]"
  let ?c = "JObj [(''2'', JStr ''yes'')]"
  have a: "js_index ?a 0 = Inr (JNum 1)" "JNum 1 \<noteq> JBool True"
    by (simp_all add: digits_small)
  have b: "js_index ?b 1 = Inr (JStr ''yes'')" "JStr ''yes'' \<noteq> JBool True"
    by (simp_all add: digits_small)
  have c: "js_index ?c 2 = Inr (JStr ''yes'')"
    by (simp add: digits_small)
  have a': "js_index ?a 1 = Inr (JBool True)"
    by (simp add: digits_small)
  have b': "js_index ?b 0 = Inr JUndefined" "js_index ?b 2 = Inr (JBool True)"
    by (simp_all add: digits_small)
  have c': "js_index ?c 0 = Inr JUndefined" "js_index ?c 1 = Inr JUndefined"
    by (simp_all add: digits_small)
  show ?thesis
    using reportCategory_strict_equality [OF a] reportCategory_strict_equality [OF b]
      reportCategory_strict_equality [OF c] a' b' c'
    by simp
qed

end
